theory Spec2Isabelle
  imports Complex_Main
begin

section \<open>Data model (types.ts)\<close>

text \<open>
  The interfaces of \<^verbatim>\<open>types.ts\<close> as records. Field names carry a prefix because record
  fields are global constants. A JavaScript \<^verbatim>\<open>number\<close> that the code only ever uses as
  an integer (XP, indices, timestamps) is an \<^typ>\<open>int\<close>; an optional field is an
  \<^typ>\<open>'a option\<close>, \<^term>\<open>None\<close> standing for \<^verbatim>\<open>undefined\<close>.
\<close>

datatype Role = Nurse | Educator

datatype SlideType = Intro | Video | Quiz | Summary

record QuizData =
  qd_question :: string
  qd_options :: "string list"
  qd_correctIndex :: int

record Slide =
  s_id :: string
  s_type :: SlideType
  s_title :: string
  s_content :: string
  s_image :: "string option"
  s_quizData :: "QuizData option"

record Course =
  c_id :: string
  c_title :: string
  c_category :: string
  c_slides :: "Slide list"
  c_xpReward :: int
  c_durationMinutes :: int
  c_timestamp :: "int option"

record QuizAttempt =
  qa_courseId :: string
  qa_slideId :: string
  qa_question :: string
  qa_selectedOption :: "string option"
  qa_isCorrect :: bool
  qa_timestamp :: int

record User =
  u_id :: string
  u_pin :: string
  u_name :: string
  u_role :: Role
  u_avatar :: string
  u_xp :: int
  u_streak :: int
  u_badges :: "string list"
  u_completedCourses :: "string list"
  u_quizAttempts :: "QuizAttempt list option"

record AuthState =
  isAuthenticated :: bool
  currentUser :: "User option"

section \<open>The course player (CoursePlayer component)\<close>

text \<open>
  The component's \<^verbatim>\<open>useState\<close> cells that drive progression and scoring. The two
  cells \<^verbatim>\<open>isVideoLoading\<close> and \<^verbatim>\<open>videoKey\<close> only steer the video spinner and are
  read by no handler below; they are left out.
\<close>

record PlayerState =
  currentSlideIndex :: nat
  selectedOption :: "nat option"
  isAnswerChecked :: bool
  isCorrect :: bool
  failedSlides :: "string set"
  sessionXp :: int

text \<open>
  What the component hands to its two callback props: \<^verbatim>\<open>onComplete(courseId, xp)\<close> and
  \<^verbatim>\<open>onQuizAttempt(courseId, slideId, question, answer, isCorrect)\<close>. The answer is
  \<^verbatim>\<open>options[selectedOption]\<close>, which is \<^verbatim>\<open>undefined\<close> out of range.
\<close>

datatype PlayerEvent =
  OnComplete string int
| OnQuizAttempt string string string "string option" bool

text \<open>Reading a property of \<^verbatim>\<open>undefined\<close> throws a TypeError; nothing else throws here.\<close>

datatype JsError = TypeError

definition XP_PER_SLIDE :: int where
  "XP_PER_SLIDE = 50"

definition initialPlayer :: PlayerState where
  "initialPlayer =
     \<lparr>currentSlideIndex = 0, selectedOption = None, isAnswerChecked = False,
      isCorrect = False, failedSlides = {}, sessionXp = 0\<rparr>"

text \<open>An array read \<^verbatim>\<open>xs[i]\<close>: \<^verbatim>\<open>undefined\<close> when the index is out of range.\<close>

definition jsIndex :: "'a list \<Rightarrow> nat \<Rightarrow> 'a option" where
  "jsIndex xs i = (if i < length xs then Some (xs ! i) else None)"

text \<open>\<^verbatim>\<open>const slide = course.slides[currentSlideIndex]\<close>\<close>

definition currentSlide :: "Course \<Rightarrow> PlayerState \<Rightarrow> Slide option" where
  "currentSlide c st = jsIndex (c_slides c) (currentSlideIndex st)"

text \<open>
  \<^verbatim>\<open>const isLastSlide = currentSlideIndex === course.slides.length - 1\<close>. The subtraction
  is on integers: for an empty slide list the right-hand side is \<open>-1\<close>.
\<close>

definition isLastSlide :: "Course \<Rightarrow> PlayerState \<Rightarrow> bool" where
  "isLastSlide c st \<longleftrightarrow> int (currentSlideIndex st) = int (length (c_slides c)) - 1"

text \<open>\<^verbatim>\<open>calculateSlideXp\<close> closes over the \<^verbatim>\<open>failedSlides\<close> cell of the state.\<close>

definition calculateSlideXp :: "PlayerState \<Rightarrow> Slide \<Rightarrow> int" where
  "calculateSlideXp st s =
     (if s_type s = Quiz \<and> s_id s \<in> failedSlides st then 0 else XP_PER_SLIDE)"

definition handleNext :: "Course \<Rightarrow> PlayerState \<Rightarrow> JsError + (PlayerState \<times> PlayerEvent list)" where
  "handleNext c st =
     (case currentSlide c st of
        None \<Rightarrow> Inl TypeError
      | Some s \<Rightarrow>
          (let earnedForThisSlide = calculateSlideXp st s;
               newTotalXp = sessionXp st + earnedForThisSlide
           in if isLastSlide c st then Inr (st, [OnComplete (c_id c) newTotalXp])
              else Inr (st\<lparr>sessionXp := newTotalXp,
                           currentSlideIndex := currentSlideIndex st + 1,
                           selectedOption := None,
                           isAnswerChecked := False,
                           isCorrect := False\<rparr>, [])))"

definition handleRetry :: "PlayerState \<Rightarrow> PlayerState" where
  "handleRetry st = st\<lparr>isAnswerChecked := False, selectedOption := None, isCorrect := False\<rparr>"

text \<open>
  \<^verbatim>\<open>handleQuizSubmit\<close>. The guard \<^verbatim>\<open>selectedOption === null || !slide.quizData\<close> short-circuits,
  so \<^verbatim>\<open>slide\<close> is only read once a selection exists. The flag \<open>cb\<close> says whether the
  optional prop \<^verbatim>\<open>onQuizAttempt\<close> was supplied.
\<close>

definition handleQuizSubmit ::
  "bool \<Rightarrow> Course \<Rightarrow> PlayerState \<Rightarrow> JsError + (PlayerState \<times> PlayerEvent list)" where
  "handleQuizSubmit cb c st =
     (case selectedOption st of
        None \<Rightarrow> Inr (st, [])
      | Some sel \<Rightarrow>
          (case currentSlide c st of
             None \<Rightarrow> Inl TypeError
           | Some s \<Rightarrow>
               (case s_quizData s of
                  None \<Rightarrow> Inr (st, [])
                | Some q \<Rightarrow>
                    (let correct = (int sel = qd_correctIndex q)
                     in Inr (st\<lparr>isCorrect := correct,
                                 isAnswerChecked := True,
                                 failedSlides := (if \<not> correct then insert (s_id s) (failedSlides st)
                                                  else failedSlides st)\<rparr>,
                             if cb then [OnQuizAttempt (c_id c) (s_id s) (qd_question q)
                                           (jsIndex (qd_options q) sel) correct]
                             else [])))))"

text \<open>The option buttons' \<^verbatim>\<open>onClick={() => !isAnswerChecked && setSelectedOption(idx)}\<close>.\<close>

definition selectOption :: "PlayerState \<Rightarrow> nat \<Rightarrow> PlayerState" where
  "selectOption st idx = (if \<not> isAnswerChecked st then st\<lparr>selectedOption := Some idx\<rparr> else st)"

text \<open>
  The progress bar: \<^verbatim>\<open>((currentSlideIndex + 1) / course.slides.length) * 100\<close>. JavaScript
  division does not throw: a positive numerator over \<open>0\<close> is \<^verbatim>\<open>Infinity\<close>. Finite values
  are kept exact (rounding of the double is not modelled).
\<close>

datatype JsNumber = Finite rat | PosInfinity

definition progress :: "Course \<Rightarrow> PlayerState \<Rightarrow> JsNumber" where
  "progress c st =
     (if length (c_slides c) = 0 then PosInfinity
      else Finite ((of_nat (currentSlideIndex st + 1) / of_nat (length (c_slides c))) * 100))"

text \<open>
  The footer renders exactly one control: \<^verbatim>\<open>Check Answer\<close> (with its \<^verbatim>\<open>disabled\<close> flag)
  while \<^verbatim>\<open>showQuizCheckBtn\<close>, else \<^verbatim>\<open>Try Again\<close> on a quiz whose answer is not correct,
  else the \<^verbatim>\<open>Continue\<close>/\<^verbatim>\<open>Finish Module\<close> button.
\<close>

datatype Footer = CheckAnswerButton bool | TryAgainButton | NextButton

definition showQuizCheckBtn :: "Slide \<Rightarrow> PlayerState \<Rightarrow> bool" where
  "showQuizCheckBtn s st \<longleftrightarrow> s_type s = Quiz \<and> \<not> isAnswerChecked st"

definition footer :: "Slide \<Rightarrow> PlayerState \<Rightarrow> Footer" where
  "footer s st =
     (if showQuizCheckBtn s st then CheckAnswerButton (selectedOption st = None)
      else if s_type s = Quiz \<and> \<not> isCorrect st then TryAgainButton
      else NextButton)"

text \<open>
  The option buttons of \<^verbatim>\<open>renderContent\<close>: only the \<^verbatim>\<open>quiz\<close> case maps over
  \<^verbatim>\<open>slide.quizData?.options\<close>; each button carries \<^verbatim>\<open>disabled={isAnswerChecked}\<close>.
\<close>

definition optionButtons :: "Slide \<Rightarrow> PlayerState \<Rightarrow> (string \<times> bool) list" where
  "optionButtons s st =
     (if s_type s = Quiz
      then (case s_quizData s of
              None \<Rightarrow> []
            | Some q \<Rightarrow> map (\<lambda>opt. (opt, isAnswerChecked st)) (qd_options q))
      else [])"

record View =
  v_progress :: JsNumber
  v_isLastSlide :: bool
  v_options :: "(string \<times> bool) list"
  v_footer :: Footer

text \<open>
  One evaluation of the component body. \<^verbatim>\<open>slide\<close>, \<^verbatim>\<open>progress\<close> and \<^verbatim>\<open>isLastSlide\<close> are
  computed first; the dependency array \<^verbatim>\<open>[currentSlideIndex, slide.type]\<close> then reads
  \<^verbatim>\<open>slide.type\<close>, which throws when \<^verbatim>\<open>slide\<close> is \<^verbatim>\<open>undefined\<close>.
\<close>

definition render :: "Course \<Rightarrow> PlayerState \<Rightarrow> JsError + View" where
  "render c st =
     (case currentSlide c st of
        None \<Rightarrow> Inl TypeError
      | Some s \<Rightarrow> Inr \<lparr>v_progress = progress c st, v_isLastSlide = isLastSlide c st,
                       v_options = optionButtons s st, v_footer = footer s st\<rparr>)"

subsection \<open>Sessions\<close>

text \<open>The four things a user can trigger in the player.\<close>

datatype Action = SelectOption nat | CheckAnswer | TryAgain | Continue

text \<open>The handler behind each control.\<close>

fun dispatch :: "bool \<Rightarrow> Course \<Rightarrow> PlayerState \<Rightarrow> Action \<Rightarrow> JsError + (PlayerState \<times> PlayerEvent list)" where
  "dispatch cb c st (SelectOption idx) = Inr (selectOption st idx, [])"
| "dispatch cb c st CheckAnswer = handleQuizSubmit cb c st"
| "dispatch cb c st TryAgain = Inr (handleRetry st, [])"
| "dispatch cb c st Continue = handleNext c st"

text \<open>
  A sequence of handler invocations, whether or not the rendered page offers them; the
  events are collected in order, and a throwing handler ends the run.
\<close>

fun run :: "bool \<Rightarrow> Course \<Rightarrow> PlayerState \<Rightarrow> Action list \<Rightarrow> JsError + (PlayerState \<times> PlayerEvent list)" where
  "run cb c st [] = Inr (st, [])"
| "run cb c st (a # as) =
     (case dispatch cb c st a of
        Inl e \<Rightarrow> Inl e
      | Inr (st', evs) \<Rightarrow>
          (case run cb c st' as of
             Inl e \<Rightarrow> Inl e
           | Inr (st'', evs') \<Rightarrow> Inr (st'', evs @ evs')))"

text \<open>Whether the rendered page offers a control, enabled, for the action.\<close>

definition enabled :: "Course \<Rightarrow> PlayerState \<Rightarrow> Action \<Rightarrow> bool" where
  "enabled c st a =
     (case render c st of
        Inl e \<Rightarrow> False
      | Inr v \<Rightarrow>
          (case a of
             SelectOption idx \<Rightarrow> (case jsIndex (v_options v) idx of
                                    None \<Rightarrow> False
                                  | Some b \<Rightarrow> \<not> snd b)
           | CheckAnswer \<Rightarrow> v_footer v = CheckAnswerButton False
           | TryAgain \<Rightarrow> v_footer v = TryAgainButton
           | Continue \<Rightarrow> v_footer v = NextButton))"

text \<open>
  A click: \<^term>\<open>None\<close> when the page offers no such enabled control, so that nothing
  can be clicked.
\<close>

definition click :: "bool \<Rightarrow> Course \<Rightarrow> PlayerState \<Rightarrow> Action \<Rightarrow> (PlayerState \<times> PlayerEvent list) option" where
  "click cb c st a =
     (if enabled c st a
      then (case dispatch cb c st a of Inl e \<Rightarrow> None | Inr r \<Rightarrow> Some r)
      else None)"

fun uiRun :: "bool \<Rightarrow> Course \<Rightarrow> PlayerState \<Rightarrow> Action list \<Rightarrow> (PlayerState \<times> PlayerEvent list) option" where
  "uiRun cb c st [] = Some (st, [])"
| "uiRun cb c st (a # as) =
     (case click cb c st a of
        None \<Rightarrow> None
      | Some (st', evs) \<Rightarrow>
          (case uiRun cb c st' as of
             None \<Rightarrow> None
           | Some (st'', evs') \<Rightarrow> Some (st'', evs @ evs')))"

text \<open>
  The award of a slide against a failed-slide set, and the number of quiz slides of a
  course whose id is in that set.
\<close>

definition slideAward :: "string set \<Rightarrow> Slide \<Rightarrow> int" where
  "slideAward F s = (if s_type s = Quiz \<and> s_id s \<in> F then 0 else XP_PER_SLIDE)"

definition failedQuizCount :: "Course \<Rightarrow> string set \<Rightarrow> nat" where
  "failedQuizCount c F = length (filter (\<lambda>s. s_type s = Quiz \<and> s_id s \<in> F) (c_slides c))"

text \<open>The slide ids of the incorrect attempts among the emitted events.\<close>

fun failedAttemptIds :: "PlayerEvent list \<Rightarrow> string set" where
  "failedAttemptIds [] = {}"
| "failedAttemptIds (OnQuizAttempt cid sid q ans ok # evs) =
     (if ok then failedAttemptIds evs else insert sid (failedAttemptIds evs))"
| "failedAttemptIds (OnComplete cid xp # evs) = failedAttemptIds evs"

section \<open>Seed data (services/mockData.ts)\<close>

text \<open>
  The first seed course: intro, video, quiz, summary. Its \<^verbatim>\<open>timestamp\<close> is
  \<^verbatim>\<open>Date.now() - 1000000000\<close>, so the clock reading is a parameter.
\<close>

definition handHygiene :: "int \<Rightarrow> Course" where
  "handHygiene now =
     \<lparr>c_id = ''c1'', c_title = ''Hand Hygiene Protocol'', c_category = ''Infection Control'',
      c_slides =
        [\<lparr>s_id = ''s1'', s_type = Intro, s_title = ''Importance of Hygiene'',
          s_content = ''Proper hand hygiene is the single most important way to prevent the spread of infection.'',
          s_image = Some ''https://images.unsplash.com/photo-1584634731339-252c581abfc5?auto=format&fit=crop&q=80&w=800'',
          s_quizData = None\<rparr>,
         \<lparr>s_id = ''s2'', s_type = Video, s_title = ''The 5 Moments'',
          s_content = ''https://www.youtube.com/embed/IisgnbMfKvI'',
          s_image = None, s_quizData = None\<rparr>,
         \<lparr>s_id = ''s3'', s_type = Quiz, s_title = ''Quick Check'', s_content = '''',
          s_image = None,
          s_quizData = Some \<lparr>qd_question = ''How long should you rub your hands together with soap?'',
                             qd_options = [''5 seconds'', ''10 seconds'', ''At least 20 seconds'', ''1 minute''],
                             qd_correctIndex = 2\<rparr>\<rparr>,
         \<lparr>s_id = ''s4'', s_type = Summary, s_title = ''Module Complete'',
          s_content = ''You have successfully reviewed the Hand Hygiene protocols. Keep up the good work!'',
          s_image = Some ''https://images.unsplash.com/photo-1628160205073-b26a117b9b00?auto=format&fit=crop&q=80&w=800'',
          s_quizData = None\<rparr>],
      c_xpReward = 100, c_durationMinutes = 5, c_timestamp = Some (now - 1000000000)\<rparr>"

text \<open>The seed users; the badge ids are those of \<^verbatim>\<open>AVAILABLE_BADGES\<close>.\<close>

definition INITIAL_USERS :: "User list" where
  "INITIAL_USERS =
     [\<lparr>u_id = ''12345'', u_pin = ''1234'', u_name = ''Sarah Jenkins'', u_role = Nurse,
       u_avatar = ''https://ui-avatars.com/api/?name=Sarah+Jenkins&background=0ea5e9&color=fff'',
       u_xp = 1250, u_streak = 5, u_badges = [''b1'', ''b2''], u_completedCourses = [],
       u_quizAttempts = Some []\<rparr>,
      \<lparr>u_id = ''54321'', u_pin = ''1234'', u_name = ''Mike Ross'', u_role = Nurse,
       u_avatar = ''https://ui-avatars.com/api/?name=Mike+Ross&background=f59e0b&color=fff'',
       u_xp = 850, u_streak = 2, u_badges = [''b1''], u_completedCourses = [],
       u_quizAttempts = Some []\<rparr>,
      \<lparr>u_id = ''99901'', u_pin = ''1234'', u_name = ''Emily Blunt'', u_role = Nurse,
       u_avatar = ''https://ui-avatars.com/api/?name=Emily+Blunt&background=10b981&color=fff'',
       u_xp = 2100, u_streak = 12, u_badges = [''b1'', ''b2'', ''b3''], u_completedCourses = [],
       u_quizAttempts = Some []\<rparr>,
      \<lparr>u_id = ''admin'', u_pin = ''1234'', u_name = ''Dr. A. Wong'', u_role = Educator,
       u_avatar = ''https://ui-avatars.com/api/?name=Dr+Wong&background=6366f1&color=fff'',
       u_xp = 0, u_streak = 0, u_badges = [], u_completedCourses = [],
       u_quizAttempts = Some []\<rparr>]"

section \<open>The application (App component)\<close>

text \<open>
  The repository holds two versions of \<^verbatim>\<open>App\<close>: one that persists to local storage and
  one that syncs to the HTTP API. Their handlers are modelled side by side, with the
  suffixes \<open>_local\<close> and \<open>_api\<close>. The state cells the modelled handlers touch:
\<close>

record AppState =
  users :: "User list"
  courses :: "Course list"
  auth :: AuthState
  activeCourse :: "Course option"

text \<open>
  The API version's fire-and-forget requests; their outcome never reaches the state, so
  a handler returns the requests it issued beside the new state.
\<close>

datatype ApiCall = SaveUser User | UpdateUserProgress User

definition handleStartCourse :: "AppState \<Rightarrow> Course \<Rightarrow> AppState" where
  "handleStartCourse app course = app\<lparr>activeCourse := Some course\<rparr>"

subsection \<open>Course completion\<close>

text \<open>
  \<^verbatim>\<open>const course = courses.find(c => c.id === courseId);\<close>
  \<^verbatim>\<open>const maxPossibleXp = course ? course.slides.length * 50 : 0;\<close>
  \<^verbatim>\<open>const isPerfectScore = earnedXp === maxPossibleXp && maxPossibleXp > 0;\<close>
\<close>

definition maxPossibleXp :: "Course list \<Rightarrow> string \<Rightarrow> int" where
  "maxPossibleXp cs courseId =
     (case find (\<lambda>c. c_id c = courseId) cs of
        Some course \<Rightarrow> int (length (c_slides course)) * 50
      | None \<Rightarrow> 0)"

definition isPerfectScore :: "Course list \<Rightarrow> string \<Rightarrow> int \<Rightarrow> bool" where
  "isPerfectScore cs courseId earnedXp \<longleftrightarrow>
     earnedXp = maxPossibleXp cs courseId \<and> maxPossibleXp cs courseId > 0"

text \<open>\<^verbatim>\<open>if (cond && !newBadges.includes(b)) newBadges.push(b)\<close>\<close>

definition pushBadge :: "bool \<Rightarrow> string \<Rightarrow> string list \<Rightarrow> string list" where
  "pushBadge cond b newBadges = (if cond \<and> b \<notin> set newBadges then newBadges @ [b] else newBadges)"

text \<open>
  The body of the \<^verbatim>\<open>users.map\<close> callback for the user whose id is the logged-in
  user's; it is the same text in both versions.
\<close>

definition rewardUser :: "string \<Rightarrow> int \<Rightarrow> bool \<Rightarrow> User \<Rightarrow> User" where
  "rewardUser courseId earnedXp perfect u =
     (if courseId \<in> set (u_completedCourses u) then u
      else
        (let newXp = u_xp u + earnedXp;
             newCompleted = u_completedCourses u @ [courseId];
             newBadges =
               pushBadge perfect ''b4''
                 (pushBadge (newXp \<ge> 1000) ''b2''
                    (pushBadge (length newCompleted = 1) ''b1'' (u_badges u)))
         in u\<lparr>u_xp := newXp, u_badges := newBadges, u_completedCourses := newCompleted\<rparr>))"

definition updatedUsersOnComplete :: "AppState \<Rightarrow> User \<Rightarrow> string \<Rightarrow> int \<Rightarrow> User list" where
  "updatedUsersOnComplete app cu courseId earnedXp =
     map (\<lambda>u. if u_id u = u_id cu
              then rewardUser courseId earnedXp (isPerfectScore (courses app) courseId earnedXp) u
              else u)
         (users app)"

definition handleCompleteCourse_local :: "AppState \<Rightarrow> string \<Rightarrow> int \<Rightarrow> AppState" where
  "handleCompleteCourse_local app courseId earnedXp =
     (case currentUser (auth app) of
        None \<Rightarrow> app
      | Some cu \<Rightarrow>
          (let updatedUsers = updatedUsersOnComplete app cu courseId earnedXp;
               updatedCurrentUser = find (\<lambda>u. u_id u = u_id cu) updatedUsers
           in app\<lparr>users := updatedUsers,
                  auth := \<lparr>isAuthenticated = True, currentUser = updatedCurrentUser\<rparr>,
                  activeCourse := None\<rparr>))"

text \<open>
  The API version sets its flag \<^verbatim>\<open>userUpdated\<close> inside the callback, when a user with
  the logged-in id had not completed the course, and does nothing at all otherwise.
\<close>

definition userUpdated :: "AppState \<Rightarrow> User \<Rightarrow> string \<Rightarrow> bool" where
  "userUpdated app cu courseId \<longleftrightarrow>
     list_ex (\<lambda>u. u_id u = u_id cu \<and> courseId \<notin> set (u_completedCourses u)) (users app)"

definition handleCompleteCourse_api :: "AppState \<Rightarrow> string \<Rightarrow> int \<Rightarrow> AppState \<times> ApiCall list" where
  "handleCompleteCourse_api app courseId earnedXp =
     (case currentUser (auth app) of
        None \<Rightarrow> (app, [])
      | Some cu \<Rightarrow>
          (let updatedUsers = updatedUsersOnComplete app cu courseId earnedXp
           in if userUpdated app cu courseId
              then (let updatedCurrentUser = find (\<lambda>u. u_id u = u_id cu) updatedUsers
                    in (app\<lparr>users := updatedUsers,
                            auth := \<lparr>isAuthenticated = True, currentUser = updatedCurrentUser\<rparr>,
                            activeCourse := None\<rparr>,
                        (case updatedCurrentUser of
                           None \<Rightarrow> []
                         | Some x \<Rightarrow> [UpdateUserProgress x])))
              else (app, [])))"

subsection \<open>User import\<close>

text \<open>\<^verbatim>\<open>Array.prototype.findIndex\<close>, with \<^term>\<open>None\<close> for its \<open>-1\<close>.\<close>

fun findIndex :: "('a \<Rightarrow> bool) \<Rightarrow> 'a list \<Rightarrow> nat option" where
  "findIndex P [] = None"
| "findIndex P (x # xs) =
     (if P x then Some 0 else map_option Suc (findIndex P xs))"

text \<open>
  The record that \<^verbatim>\<open>handleFileChange\<close> (EducatorDashboard) pushes for a CSV row whose
  fields \<open>id\<close>, \<open>name\<close>, \<open>pin\<close> are non-empty. The splitting and trimming of the line is
  not modelled; the fields arrive as strings. \<open>enc\<close> stands for the platform's
  \<^verbatim>\<open>encodeURIComponent\<close>.
\<close>

definition parsedUser :: "(string \<Rightarrow> string) \<Rightarrow> string \<Rightarrow> string \<Rightarrow> string \<Rightarrow> string \<Rightarrow> User" where
  "parsedUser enc ident name pin role =
     \<lparr>u_id = ident, u_pin = pin, u_name = name,
      u_role = (if role = ''Nurse'' then Nurse else if role = ''Educator'' then Educator else Nurse),
      u_avatar = ''https://ui-avatars.com/api/?name='' @ enc name @ ''&background=random'',
      u_xp = 0, u_streak = 0, u_badges = [], u_completedCourses = [],
      u_quizAttempts = Some []\<rparr>"

text \<open>
  The object spread \<^verbatim>\<open>{ ...existing, ...imported }\<close> on two users: every field that
  \<open>imported\<close> has wins; only the optional \<^verbatim>\<open>quizAttempts\<close> can be absent.
\<close>

definition spreadUser :: "User \<Rightarrow> User \<Rightarrow> User" where
  "spreadUser existing imported =
     imported\<lparr>u_quizAttempts :=
                (case u_quizAttempts imported of
                   None \<Rightarrow> u_quizAttempts existing
                 | Some qs \<Rightarrow> Some qs)\<rparr>"

text \<open>One round of the \<^verbatim>\<open>importedUsers.forEach\<close> loop, in each version.\<close>

definition importOne_local :: "User list \<Rightarrow> User \<Rightarrow> User list" where
  "importOne_local updatedUsers imported =
     (case findIndex (\<lambda>u. u_id u = u_id imported) updatedUsers of
        Some index \<Rightarrow>
          updatedUsers[index := (updatedUsers ! index)
                                  \<lparr>u_name := u_name imported, u_pin := u_pin imported,
                                   u_role := u_role imported\<rparr>]
      | None \<Rightarrow> updatedUsers @ [imported])"

definition importOne_api :: "User list \<Rightarrow> User \<Rightarrow> User list" where
  "importOne_api updatedUsers imported =
     (case findIndex (\<lambda>u. u_id u = u_id imported) updatedUsers of
        Some index \<Rightarrow> updatedUsers[index := spreadUser (updatedUsers ! index) imported]
      | None \<Rightarrow> updatedUsers @ [imported])"

definition handleImportUsers_local :: "AppState \<Rightarrow> User list \<Rightarrow> AppState" where
  "handleImportUsers_local app importedUsers =
     app\<lparr>users := foldl importOne_local (users app) importedUsers\<rparr>"

definition handleImportUsers_api :: "AppState \<Rightarrow> User list \<Rightarrow> AppState \<times> ApiCall list" where
  "handleImportUsers_api app importedUsers =
     (app\<lparr>users := foldl importOne_api (users app) importedUsers\<rparr>, map SaveUser importedUsers)"

section \<open>The course builder (CourseBuilder component)\<close>

text \<open>
  What the builder hands to \<^verbatim>\<open>onSave\<close>: a course without its id (\<^verbatim>\<open>Omit<Course, 'id'>\<close>).
\<close>

record CourseDraft =
  d_title :: string
  d_category :: string
  d_slides :: "Slide list"
  d_durationMinutes :: int
  d_xpReward :: int

text \<open>
  The builder's \<^verbatim>\<open>handleSaveCourse\<close>:
  \<^verbatim>\<open>if (!title || !category || slides.length === 0) return;\<close> and then the call of
  \<^verbatim>\<open>onSave\<close>. \<^term>\<open>None\<close> is the return without a call. An empty string is falsy.
\<close>

definition CourseBuilder_handleSaveCourse :: "string \<Rightarrow> string \<Rightarrow> Slide list \<Rightarrow> CourseDraft option" where
  "CourseBuilder_handleSaveCourse title category slides =
     (if title = [] \<or> category = [] \<or> length slides = 0 then None
      else Some \<lparr>d_title = title, d_category = category, d_slides = slides,
                  d_durationMinutes = int (length slides) * 2,
                  d_xpReward = int (length slides) * 50\<rparr>)"

section \<open>Example inputs\<close>

text \<open>
  The clicks of a learner who fails the quiz of the first seed course once and then
  corrects it, and of one who answers it correctly at once; both stop before the final
  click on \<^verbatim>\<open>Finish Module\<close>.
\<close>

definition retakeActions :: "Action list" where
  "retakeActions = [Continue, Continue, SelectOption 0, CheckAnswer, TryAgain, SelectOption 2, CheckAnswer, Continue]"

definition firstTryActions :: "Action list" where
  "firstTryActions = [Continue, Continue, SelectOption 2, CheckAnswer, Continue]"

text \<open>The player on the quiz slide of the seed course, nothing selected yet.\<close>

definition atQuiz :: PlayerState where
  "atQuiz = \<lparr>currentSlideIndex = 2, selectedOption = None, isAnswerChecked = False,
             isCorrect = False, failedSlides = {}, sessionXp = 100\<rparr>"

text \<open>A course with no slides, and the application with the second seed user logged in.\<close>

definition emptyCourse :: Course where
  "emptyCourse =
     \<lparr>c_id = ''c0'', c_title = ''Untitled'', c_category = ''General'', c_slides = [],
      c_xpReward = 0, c_durationMinutes = 0, c_timestamp = None\<rparr>"

definition mikeAtHome :: AppState where
  "mikeAtHome =
     \<lparr>users = INITIAL_USERS, courses = [handHygiene 0, emptyCourse],
      auth = \<lparr>isAuthenticated = True, currentUser = Some (INITIAL_USERS ! 1)\<rparr>,
      activeCourse = None\<rparr>"

text \<open>The same application with the seed educator logged in.\<close>

definition educatorAtHome :: AppState where
  "educatorAtHome =
     \<lparr>users = INITIAL_USERS, courses = [handHygiene 0, emptyCourse],
      auth = \<lparr>isAuthenticated = True, currentUser = Some (INITIAL_USERS ! 3)\<rparr>,
      activeCourse = None\<rparr>"

section \<open>The session invariant\<close>

text \<open>
  While a session runs, the index stays inside the slide list and the session XP is the
  sum of the awards of the slides already advanced past, taken against the current
  failed-slide set.
\<close>

definition sessionInv :: "Course \<Rightarrow> PlayerState \<Rightarrow> bool" where
  "sessionInv c st \<longleftrightarrow>
     currentSlideIndex st < length (c_slides c) \<and>
     sessionXp st = sum_list (map (slideAward (failedSlides st)) (take (currentSlideIndex st) (c_slides c)))"

section \<open>Evaluating the seed course\<close>

lemmas player_defs =
  click_def enabled_def render_def currentSlide_def jsIndex_def initialPlayer_def
  footer_def showQuizCheckBtn_def optionButtons_def handleNext_def handleQuizSubmit_def
  handleRetry_def selectOption_def isLastSlide_def calculateSlideXp_def XP_PER_SLIDE_def
  progress_def Let_def

lemma uiRun_run: "uiRun cb c st acts = Some r \<Longrightarrow> run cb c st acts = Inr r"
proof (induction acts arbitrary: st r)
  case Nil
  then show ?case by simp
next
  case (Cons a acts)
  then show ?case
    by (auto simp: click_def split: option.splits sum.splits prod.splits if_splits)
qed

lemma handHygiene_distinct: "distinct (map s_id (c_slides (handHygiene now)))"
  by (simp add: handHygiene_def)

lemma retake_uiRun:
  "uiRun True (handHygiene now) initialPlayer retakeActions =
     Some (\<lparr>currentSlideIndex = 3, selectedOption = None, isAnswerChecked = False,
            isCorrect = False, failedSlides = {''s3''}, sessionXp = 100\<rparr>,
           [OnQuizAttempt ''c1'' ''s3'' ''How long should you rub your hands together with soap?''
              (Some ''5 seconds'') False,
            OnQuizAttempt ''c1'' ''s3'' ''How long should you rub your hands together with soap?''
              (Some ''At least 20 seconds'') True])"
  by (simp add: retakeActions_def player_defs handHygiene_def)

lemma firstTry_uiRun:
  "uiRun True (handHygiene now) initialPlayer firstTryActions =
     Some (\<lparr>currentSlideIndex = 3, selectedOption = None, isAnswerChecked = False,
            isCorrect = False, failedSlides = {}, sessionXp = 150\<rparr>,
           [OnQuizAttempt ''c1'' ''s3'' ''How long should you rub your hands together with soap?''
              (Some ''At least 20 seconds'') True])"
  by (simp add: firstTryActions_def player_defs handHygiene_def)

lemma finish_retake:
  "click True (handHygiene now) \<lparr>currentSlideIndex = 3, selectedOption = None, isAnswerChecked = False,
            isCorrect = False, failedSlides = {''s3''}, sessionXp = 100\<rparr> Continue
   = Some (\<lparr>currentSlideIndex = 3, selectedOption = None, isAnswerChecked = False,
            isCorrect = False, failedSlides = {''s3''}, sessionXp = 100\<rparr>, [OnComplete ''c1'' 150])"
  by (simp add: player_defs handHygiene_def)

lemma finish_firstTry:
  "click True (handHygiene now) \<lparr>currentSlideIndex = 3, selectedOption = None, isAnswerChecked = False,
            isCorrect = False, failedSlides = {}, sessionXp = 150\<rparr> Continue
   = Some (\<lparr>currentSlideIndex = 3, selectedOption = None, isAnswerChecked = False,
            isCorrect = False, failedSlides = {}, sessionXp = 150\<rparr>, [OnComplete ''c1'' 200])"
  by (simp add: player_defs handHygiene_def)

section \<open>Scoring of one slide\<close>

text \<open>
  C1. Advancing past a slide awards the per-slide constant 50, unless the slide is a quiz
  whose id is in the failed-slide set, in which case it awards 0: on a slide that is not
  the last, \<^verbatim>\<open>handleNext\<close> adds that award to the session XP; on the last slide it reports
  the session XP plus that award through \<^verbatim>\<open>onComplete\<close>. Slides that are not quizzes
  always award 50.
\<close>

theorem handleNext_awards_slide_xp:
  assumes "currentSlide c st = Some s"
  shows "XP_PER_SLIDE = 50 \<and>
         calculateSlideXp st s = (if s_type s = Quiz \<and> s_id s \<in> failedSlides st then 0 else 50) \<and>
         (s_type s \<noteq> Quiz \<longrightarrow> calculateSlideXp st s = 50) \<and>
         (\<not> isLastSlide c st \<longrightarrow>
            (\<exists>st'. handleNext c st = Inr (st', []) \<and>
                   sessionXp st' = sessionXp st + calculateSlideXp st s \<and>
                   currentSlideIndex st' = currentSlideIndex st + 1)) \<and>
         (isLastSlide c st \<longrightarrow>
            handleNext c st = Inr (st, [OnComplete (c_id c) (sessionXp st + calculateSlideXp st s)]))"
  using assms
  by (simp add: XP_PER_SLIDE_def calculateSlideXp_def handleNext_def Let_def)

theorem handleNext_awards_slide_xp_witness:
  "currentSlide (handHygiene 0)
     \<lparr>currentSlideIndex = 2, selectedOption = Some 2, isAnswerChecked = True,
      isCorrect = True, failedSlides = {''s3''}, sessionXp = 100\<rparr>
     = Some (c_slides (handHygiene 0) ! 2) \<and>
   calculateSlideXp
     \<lparr>currentSlideIndex = 2, selectedOption = Some 2, isAnswerChecked = True,
      isCorrect = True, failedSlides = {''s3''}, sessionXp = 100\<rparr>
     (c_slides (handHygiene 0) ! 2) = 0 \<and>
   (\<exists>st'. handleNext (handHygiene 0)
     \<lparr>currentSlideIndex = 2, selectedOption = Some 2, isAnswerChecked = True,
      isCorrect = True, failedSlides = {''s3''}, sessionXp = 100\<rparr> = Inr (st', []) \<and>
      sessionXp st' = 100 \<and> currentSlideIndex st' = 3)"
proof -
  let ?st = "\<lparr>currentSlideIndex = 2, selectedOption = Some 2, isAnswerChecked = True,
      isCorrect = True, failedSlides = {''s3''}, sessionXp = 100\<rparr>"
  have cur: "currentSlide (handHygiene 0) ?st = Some (c_slides (handHygiene 0) ! 2)"
    by (simp add: currentSlide_def jsIndex_def handHygiene_def)
  have quiz: "s_type (c_slides (handHygiene 0) ! 2) = Quiz" "s_id (c_slides (handHygiene 0) ! 2) = ''s3''"
    by (simp_all add: handHygiene_def)
  have notlast: "\<not> isLastSlide (handHygiene 0) ?st"
    by (simp add: isLastSlide_def handHygiene_def)
  show ?thesis
    using handleNext_awards_slide_xp [OF cur] cur quiz notlast by auto
qed


section \<open>XP of a whole session\<close>

lemma slideAward_insert_other:
  "s_id s \<noteq> x \<Longrightarrow> slideAward (insert x F) s = slideAward F s"
  by (simp add: slideAward_def)

lemma awards_insert_fresh:
  "x \<notin> s_id ` set xs \<Longrightarrow> map (slideAward (insert x F)) xs = map (slideAward F) xs"
  by (induction xs) (auto simp: slideAward_insert_other)

lemma id_not_among_earlier:
  assumes "distinct (map s_id xs)" and "i < length xs"
  shows "s_id (xs ! i) \<notin> s_id ` set (take i xs)"
proof -
  have "xs = take i xs @ xs ! i # drop (Suc i) xs"
    using assms(2) by (simp add: id_take_nth_drop)
  then have "distinct (map s_id (take i xs @ xs ! i # drop (Suc i) xs))"
    using assms(1) by simp
  then show ?thesis by auto
qed

lemma calculateSlideXp_slideAward: "calculateSlideXp st s = slideAward (failedSlides st) s"
  by (simp add: calculateSlideXp_def slideAward_def)

lemma sessionInv_initial: "c_slides c \<noteq> [] \<Longrightarrow> sessionInv c initialPlayer"
  by (simp add: sessionInv_def initialPlayer_def)

lemma sessionInv_handleNext:
  assumes "sessionInv c st" and "handleNext c st = Inr (st', evs)"
  shows "sessionInv c st'"
proof (cases "isLastSlide c st")
  case True
  with assms show ?thesis
    by (auto simp: handleNext_def currentSlide_def jsIndex_def sessionInv_def Let_def)
next
  case False
  from assms(1) have lt: "currentSlideIndex st < length (c_slides c)"
    by (simp add: sessionInv_def)
  with False have lt': "Suc (currentSlideIndex st) < length (c_slides c)"
    by (auto simp: isLastSlide_def)
  from assms False lt show ?thesis
    using lt'
    by (auto simp: handleNext_def currentSlide_def jsIndex_def sessionInv_def Let_def
        take_Suc_conv_app_nth calculateSlideXp_slideAward)
qed

lemma sessionInv_handleQuizSubmit:
  assumes "distinct (map s_id (c_slides c))" and "sessionInv c st"
    and "handleQuizSubmit cb c st = Inr (st', evs)"
  shows "sessionInv c st'"
proof -
  from assms(2) have lt: "currentSlideIndex st < length (c_slides c)"
    by (simp add: sessionInv_def)
  have fresh: "s_id (c_slides c ! currentSlideIndex st) \<notin> s_id ` set (take (currentSlideIndex st) (c_slides c))"
    using id_not_among_earlier [OF assms(1) lt] .
  from assms(2,3) lt show ?thesis
    by (auto simp: handleQuizSubmit_def currentSlide_def jsIndex_def sessionInv_def Let_def
        awards_insert_fresh [OF fresh] split: option.splits if_splits)
qed

lemma sessionInv_dispatch:
  assumes "distinct (map s_id (c_slides c))" and "sessionInv c st"
    and "dispatch cb c st a = Inr (st', evs)"
  shows "sessionInv c st'"
proof (cases a)
  case (SelectOption idx)
  with assms show ?thesis by (auto simp: selectOption_def sessionInv_def)
next
  case CheckAnswer
  with assms show ?thesis by (auto intro: sessionInv_handleQuizSubmit)
next
  case TryAgain
  with assms show ?thesis by (auto simp: handleRetry_def sessionInv_def)
next
  case Continue
  with assms show ?thesis by (auto intro: sessionInv_handleNext)
qed

lemma sessionInv_run:
  assumes "distinct (map s_id (c_slides c))"
  shows "sessionInv c st \<Longrightarrow> run cb c st acts = Inr (st', evs) \<Longrightarrow> sessionInv c st'"
proof (induction acts arbitrary: st evs)
  case Nil
  then show ?case by simp
next
  case (Cons a acts)
  then show ?case
    by (auto split: sum.splits prod.splits dest: sessionInv_dispatch [OF assms])
qed

lemma sum_awards:
  "sum_list (map (slideAward F) xs) =
     (int (length xs) - int (length (filter (\<lambda>s. s_type s = Quiz \<and> s_id s \<in> F) xs))) * 50"
  by (induction xs) (auto simp: slideAward_def XP_PER_SLIDE_def algebra_simps)

lemma failedAttemptIds_append:
  "failedAttemptIds (xs @ ys) = failedAttemptIds xs \<union> failedAttemptIds ys"
  by (induction xs rule: failedAttemptIds.induct) auto

lemma failed_dispatch:
  "dispatch True c st a = Inr (st', evs) \<Longrightarrow> failedSlides st' = failedSlides st \<union> failedAttemptIds evs"
  by (cases a)
     (auto simp: handleQuizSubmit_def handleNext_def handleRetry_def selectOption_def Let_def
           split: option.splits if_splits)

lemma failed_run:
  "run True c st acts = Inr (st', evs) \<Longrightarrow> failedSlides st' = failedSlides st \<union> failedAttemptIds evs"
proof (induction acts arbitrary: st evs)
  case Nil
  then show ?case by simp
next
  case (Cons a acts)
  then show ?case
    by (auto split: sum.splits prod.splits simp: failedAttemptIds_append dest!: failed_dispatch)
qed

text \<open>
  C2. A session on a course with \<open>N\<close> slides (their ids distinct) that reaches completion
  reports \<open>(N - K) * 50\<close> XP, where \<open>K\<close> is the number of quiz slides for which an incorrect
  attempt was emitted during the session; these are exactly the quiz slides in the
  failed-slide set. The session is any sequence of handler invocations from the initial
  state, and the completion is the \<^verbatim>\<open>onComplete\<close> call of \<^verbatim>\<open>handleNext\<close>.
\<close>

theorem completion_total_xp:
  assumes "distinct (map s_id (c_slides c))"
    and "run True c initialPlayer acts = Inr (st, evs)"
    and "handleNext c st = Inr (st', [OnComplete cid totalXp])"
  shows "totalXp = (int (length (c_slides c)) - int (failedQuizCount c (failedAttemptIds evs))) * XP_PER_SLIDE
         \<and> failedAttemptIds evs = failedSlides st \<and> cid = c_id c"
proof -
  from assms(3) have ne: "c_slides c \<noteq> []"
    by (auto simp: handleNext_def currentSlide_def jsIndex_def split: option.splits if_splits)
  have inv: "sessionInv c st"
    using sessionInv_run [OF assms(1) sessionInv_initial [OF ne] assms(2)] .
  have F: "failedSlides st = failedAttemptIds evs"
    using failed_run [OF assms(2)] by (simp add: initialPlayer_def)
  from inv have lt: "currentSlideIndex st < length (c_slides c)"
    and xp: "sessionXp st = sum_list (map (slideAward (failedSlides st)) (take (currentSlideIndex st) (c_slides c)))"
    by (simp_all add: sessionInv_def)
  from assms(3) lt have last: "isLastSlide c st"
    and tot: "totalXp = sessionXp st + slideAward (failedSlides st) (c_slides c ! currentSlideIndex st)"
    and cid: "cid = c_id c"
    by (auto simp: handleNext_def currentSlide_def jsIndex_def Let_def calculateSlideXp_slideAward
        split: if_splits)
  from last lt have "Suc (currentSlideIndex st) = length (c_slides c)"
    by (auto simp: isLastSlide_def)
  then have whole: "take (currentSlideIndex st) (c_slides c) @ [c_slides c ! currentSlideIndex st] = c_slides c"
    using lt by (simp add: take_Suc_conv_app_nth [symmetric])
  have "sum_list (map (slideAward (failedSlides st)) (c_slides c)) =
        sum_list (map (slideAward (failedSlides st))
          (take (currentSlideIndex st) (c_slides c) @ [c_slides c ! currentSlideIndex st]))"
    by (simp only: whole)
  then have "totalXp = sum_list (map (slideAward (failedSlides st)) (c_slides c))"
    using tot xp by simp
  then show ?thesis
    by (simp add: sum_awards failedQuizCount_def F XP_PER_SLIDE_def cid)
qed


theorem completion_total_xp_witness:
  "(\<exists>st evs. uiRun True (handHygiene 0) initialPlayer firstTryActions = Some (st, evs) \<and>
      click True (handHygiene 0) st Continue = Some (st, [OnComplete ''c1'' 200]) \<and>
      handleNext (handHygiene 0) st = Inr (st, [OnComplete ''c1'' 200]) \<and>
      failedQuizCount (handHygiene 0) (failedAttemptIds evs) = 0 \<and>
      (200::int) = (int (length (c_slides (handHygiene 0))) -
                    int (failedQuizCount (handHygiene 0) (failedAttemptIds evs))) * XP_PER_SLIDE) \<and>
   (\<exists>st evs. uiRun True (handHygiene 0) initialPlayer retakeActions = Some (st, evs) \<and>
      click True (handHygiene 0) st Continue = Some (st, [OnComplete ''c1'' 150]) \<and>
      handleNext (handHygiene 0) st = Inr (st, [OnComplete ''c1'' 150]) \<and>
      failedQuizCount (handHygiene 0) (failedAttemptIds evs) = 1 \<and>
      (150::int) = (int (length (c_slides (handHygiene 0))) -
                    int (failedQuizCount (handHygiene 0) (failedAttemptIds evs))) * XP_PER_SLIDE)"
proof -
  let ?c = "handHygiene 0"
  let ?s1 = "\<lparr>currentSlideIndex = 3, selectedOption = None, isAnswerChecked = False,
            isCorrect = False, failedSlides = {}, sessionXp = 150\<rparr>"
  let ?e1 = "[OnQuizAttempt ''c1'' ''s3'' ''How long should you rub your hands together with soap?''
              (Some ''At least 20 seconds'') True]"
  let ?s2 = "\<lparr>currentSlideIndex = 3, selectedOption = None, isAnswerChecked = False,
            isCorrect = False, failedSlides = {''s3''}, sessionXp = 100\<rparr>"
  let ?e2 = "[OnQuizAttempt ''c1'' ''s3'' ''How long should you rub your hands together with soap?''
              (Some ''5 seconds'') False,
            OnQuizAttempt ''c1'' ''s3'' ''How long should you rub your hands together with soap?''
              (Some ''At least 20 seconds'') True]"
  have n1: "handleNext ?c ?s1 = Inr (?s1, [OnComplete ''c1'' 200])"
    by (simp add: player_defs handHygiene_def)
  have n2: "handleNext ?c ?s2 = Inr (?s2, [OnComplete ''c1'' 150])"
    by (simp add: player_defs handHygiene_def)
  have k1: "failedQuizCount ?c (failedAttemptIds ?e1) = 0"
    by (simp add: failedQuizCount_def handHygiene_def)
  have k2: "failedQuizCount ?c (failedAttemptIds ?e2) = 1"
    by (simp add: failedQuizCount_def handHygiene_def)
  note t1 = completion_total_xp [OF handHygiene_distinct uiRun_run [OF firstTry_uiRun] n1]
  note t2 = completion_total_xp [OF handHygiene_distinct uiRun_run [OF retake_uiRun] n2]
  show ?thesis
    using t1 t2 k1 k2 n1 n2 firstTry_uiRun [of 0] retake_uiRun [of 0]
      finish_firstTry [of 0] finish_retake [of 0] by simp
qed


section \<open>Failed quiz slides\<close>

lemma dispatch_keeps_index:
  assumes "currentSlideIndex st < length (c_slides c)"
  shows "\<exists>st' evs. dispatch cb c st a = Inr (st', evs) \<and>
           currentSlideIndex st' < length (c_slides c) \<and> failedSlides st \<subseteq> failedSlides st'"
proof (cases a)
  case (SelectOption idx)
  with assms show ?thesis by (simp add: selectOption_def)
next
  case CheckAnswer
  with assms show ?thesis
    by (auto simp: handleQuizSubmit_def currentSlide_def jsIndex_def Let_def split: option.splits)
next
  case TryAgain
  with assms show ?thesis by (simp add: handleRetry_def)
next
  case Continue
  with assms show ?thesis
    by (auto simp: handleNext_def currentSlide_def jsIndex_def Let_def isLastSlide_def)
qed

lemma run_keeps_index:
  "currentSlideIndex st < length (c_slides c) \<Longrightarrow>
     \<exists>st' evs. run cb c st acts = Inr (st', evs) \<and>
       currentSlideIndex st' < length (c_slides c) \<and> failedSlides st \<subseteq> failedSlides st'"
proof (induction acts arbitrary: st)
  case Nil
  then show ?case by simp
next
  case (Cons a acts)
  from dispatch_keeps_index [OF Cons.prems, of cb a]
  obtain st1 evs1 where d: "dispatch cb c st a = Inr (st1, evs1)"
    and i1: "currentSlideIndex st1 < length (c_slides c)"
    and f1: "failedSlides st \<subseteq> failedSlides st1"
    by blast
  from Cons.IH [OF i1]
  obtain st2 evs2 where r: "run cb c st1 acts = Inr (st2, evs2)"
    and i2: "currentSlideIndex st2 < length (c_slides c)"
    and f2: "failedSlides st1 \<subseteq> failedSlides st2"
    by blast
  from d r i2 f1 f2 show ?case by auto
qed

lemma handleNext_failed_quiz:
  assumes "currentSlide c st = Some s" and "s_type s = Quiz" and "s_id s \<in> failedSlides st"
  shows "calculateSlideXp st s = 0 \<and>
         (\<exists>st' evs. handleNext c st = Inr (st', evs) \<and> sessionXp st' = sessionXp st \<and>
            evs = (if isLastSlide c st then [OnComplete (c_id c) (sessionXp st)] else []))"
  using assms by (simp add: handleNext_def calculateSlideXp_def Let_def)

text \<open>
  C3. Once a quiz slide is answered incorrectly its id is in the failed-slide set, and it
  is still there after any further sequence of handler invocations (retry, selection,
  another check, advancing): no handler removes an id. Hence, while the player is on
  that quiz slide, advancing awards 0 XP for it, whatever the last check said.
\<close>

theorem failed_slide_stays_failed:
  assumes cur: "currentSlide c st = Some s"
    and qd: "s_quizData s = Some q"
    and sel: "selectedOption st = Some sel"
    and wrong: "int sel \<noteq> qd_correctIndex q"
  shows "\<exists>st1 evs1. handleQuizSubmit cb c st = Inr (st1, evs1) \<and> s_id s \<in> failedSlides st1 \<and>
           (\<forall>acts. \<exists>st2 evs2. run cb c st1 acts = Inr (st2, evs2) \<and> s_id s \<in> failedSlides st2 \<and>
              (s_type s = Quiz \<and> currentSlide c st2 = Some s \<longrightarrow>
                 calculateSlideXp st2 s = 0 \<and>
                 (\<exists>st3 evs3. handleNext c st2 = Inr (st3, evs3) \<and> sessionXp st3 = sessionXp st2 \<and>
                    evs3 = (if isLastSlide c st2 then [OnComplete (c_id c) (sessionXp st2)] else []))))"
proof -
  from cur have lt: "currentSlideIndex st < length (c_slides c)"
    by (simp add: currentSlide_def jsIndex_def split: if_splits)
  obtain st1 evs1 where sub: "handleQuizSubmit cb c st = Inr (st1, evs1)"
    and mem: "s_id s \<in> failedSlides st1" and idx: "currentSlideIndex st1 = currentSlideIndex st"
    using cur qd sel wrong by (simp add: handleQuizSubmit_def Let_def)
  have later: "\<exists>st2 evs2. run cb c st1 acts = Inr (st2, evs2) \<and> s_id s \<in> failedSlides st2 \<and>
              (s_type s = Quiz \<and> currentSlide c st2 = Some s \<longrightarrow>
                 calculateSlideXp st2 s = 0 \<and>
                 (\<exists>st3 evs3. handleNext c st2 = Inr (st3, evs3) \<and> sessionXp st3 = sessionXp st2 \<and>
                    evs3 = (if isLastSlide c st2 then [OnComplete (c_id c) (sessionXp st2)] else [])))"
    for acts
  proof -
    from lt idx have "currentSlideIndex st1 < length (c_slides c)" by simp
    from run_keeps_index [OF this, of cb acts]
    obtain st2 evs2 where r: "run cb c st1 acts = Inr (st2, evs2)"
      and f: "failedSlides st1 \<subseteq> failedSlides st2"
      by blast
    from mem f have mem2: "s_id s \<in> failedSlides st2" by blast
    show ?thesis
      using r mem2 handleNext_failed_quiz [of c st2 s] by blast
  qed
  from sub mem later show ?thesis by blast
qed

theorem failed_slide_stays_failed_witness:
  "handleQuizSubmit True (handHygiene 0) (atQuiz\<lparr>selectedOption := Some 0\<rparr>) =
     Inr (atQuiz\<lparr>selectedOption := Some 0, isAnswerChecked := True, failedSlides := {''s3''}\<rparr>,
          [OnQuizAttempt ''c1'' ''s3'' ''How long should you rub your hands together with soap?''
             (Some ''5 seconds'') False]) \<and>
   run True (handHygiene 0)
       (atQuiz\<lparr>selectedOption := Some 0, isAnswerChecked := True, failedSlides := {''s3''}\<rparr>)
       [TryAgain, SelectOption 2, CheckAnswer] =
     Inr (atQuiz\<lparr>selectedOption := Some 2, isAnswerChecked := True, isCorrect := True,
                 failedSlides := {''s3''}\<rparr>,
          [OnQuizAttempt ''c1'' ''s3'' ''How long should you rub your hands together with soap?''
             (Some ''At least 20 seconds'') True]) \<and>
   calculateSlideXp (atQuiz\<lparr>selectedOption := Some 2, isAnswerChecked := True, isCorrect := True,
                 failedSlides := {''s3''}\<rparr>) (c_slides (handHygiene 0) ! 2) = 0 \<and>
   handleNext (handHygiene 0)
       (atQuiz\<lparr>selectedOption := Some 2, isAnswerChecked := True, isCorrect := True,
              failedSlides := {''s3''}\<rparr>) =
     Inr (\<lparr>currentSlideIndex = 3, selectedOption = None, isAnswerChecked = False,
           isCorrect = False, failedSlides = {''s3''}, sessionXp = 100\<rparr>, [])"
proof -
  let ?c = "handHygiene 0"
  let ?st = "atQuiz\<lparr>selectedOption := Some 0\<rparr>"
  let ?s = "c_slides ?c ! 2"
  let ?q = "\<lparr>qd_question = ''How long should you rub your hands together with soap?'',
             qd_options = [''5 seconds'', ''10 seconds'', ''At least 20 seconds'', ''1 minute''],
             qd_correctIndex = 2\<rparr>"
  have cur: "currentSlide ?c ?st = Some ?s"
    by (simp add: currentSlide_def jsIndex_def atQuiz_def handHygiene_def)
  have qd: "s_quizData ?s = Some ?q" by (simp add: handHygiene_def)
  have sel: "selectedOption ?st = Some 0" by simp
  have wrong: "int 0 \<noteq> qd_correctIndex ?q" by simp
  note permanent = failed_slide_stays_failed [OF cur qd sel wrong, of True]
  have a: "handleQuizSubmit True ?c ?st =
     Inr (atQuiz\<lparr>selectedOption := Some 0, isAnswerChecked := True, failedSlides := {''s3''}\<rparr>,
          [OnQuizAttempt ''c1'' ''s3'' ''How long should you rub your hands together with soap?''
             (Some ''5 seconds'') False])"
    by (simp add: player_defs atQuiz_def handHygiene_def)
  have b: "run True ?c
       (atQuiz\<lparr>selectedOption := Some 0, isAnswerChecked := True, failedSlides := {''s3''}\<rparr>)
       [TryAgain, SelectOption 2, CheckAnswer] =
     Inr (atQuiz\<lparr>selectedOption := Some 2, isAnswerChecked := True, isCorrect := True,
                 failedSlides := {''s3''}\<rparr>,
          [OnQuizAttempt ''c1'' ''s3'' ''How long should you rub your hands together with soap?''
             (Some ''At least 20 seconds'') True])"
    by (simp add: player_defs atQuiz_def handHygiene_def)
  have c: "calculateSlideXp (atQuiz\<lparr>selectedOption := Some 2, isAnswerChecked := True, isCorrect := True,
                 failedSlides := {''s3''}\<rparr>) ?s = 0"
    by (simp add: player_defs atQuiz_def handHygiene_def)
  have d: "handleNext ?c
       (atQuiz\<lparr>selectedOption := Some 2, isAnswerChecked := True, isCorrect := True,
              failedSlides := {''s3''}\<rparr>) =
     Inr (\<lparr>currentSlideIndex = 3, selectedOption = None, isAnswerChecked = False,
           isCorrect = False, failedSlides = {''s3''}, sessionXp = 100\<rparr>, [])"
    by (simp add: player_defs atQuiz_def handHygiene_def)
  from permanent a b c d show ?thesis by blast
qed

section \<open>Quiz attempts\<close>

text \<open>
  C4. A submission on a slide with quiz data and a selection made calls the attempt
  callback exactly once, with the course id, the slide id, the question, the text of the
  chosen option and the flag \<open>selectedOption = correctIndex\<close>, whether or not the answer
  is correct.
\<close>

theorem handleQuizSubmit_emits_one_attempt:
  assumes "currentSlide c st = Some s"
    and "s_quizData s = Some q"
    and "selectedOption st = Some sel"
  shows "\<exists>st'. handleQuizSubmit True c st =
            Inr (st', [OnQuizAttempt (c_id c) (s_id s) (qd_question q)
                         (jsIndex (qd_options q) sel) (int sel = qd_correctIndex q)]) \<and>
           isAnswerChecked st' \<and> (isCorrect st' \<longleftrightarrow> int sel = qd_correctIndex q) \<and>
           (sel < length (qd_options q) \<longrightarrow> jsIndex (qd_options q) sel = Some (qd_options q ! sel))"
  using assms by (simp add: handleQuizSubmit_def Let_def jsIndex_def)

theorem handleQuizSubmit_emits_one_attempt_witness:
  "handleQuizSubmit True (handHygiene 0) (atQuiz\<lparr>selectedOption := Some 0\<rparr>) =
     Inr (atQuiz\<lparr>selectedOption := Some 0, isAnswerChecked := True, failedSlides := {''s3''}\<rparr>,
          [OnQuizAttempt ''c1'' ''s3'' ''How long should you rub your hands together with soap?''
             (Some ''5 seconds'') False]) \<and>
   handleQuizSubmit True (handHygiene 0) (atQuiz\<lparr>selectedOption := Some 2\<rparr>) =
     Inr (atQuiz\<lparr>selectedOption := Some 2, isAnswerChecked := True, isCorrect := True\<rparr>,
          [OnQuizAttempt ''c1'' ''s3'' ''How long should you rub your hands together with soap?''
             (Some ''At least 20 seconds'') True])"
proof -
  let ?c = "handHygiene 0"
  let ?s = "c_slides ?c ! 2"
  let ?q = "\<lparr>qd_question = ''How long should you rub your hands together with soap?'',
             qd_options = [''5 seconds'', ''10 seconds'', ''At least 20 seconds'', ''1 minute''],
             qd_correctIndex = 2\<rparr>"
  have qd: "s_quizData ?s = Some ?q" by (simp add: handHygiene_def)
  have cur0: "currentSlide ?c (atQuiz\<lparr>selectedOption := Some 0\<rparr>) = Some ?s"
    by (simp add: currentSlide_def jsIndex_def atQuiz_def handHygiene_def)
  have cur2: "currentSlide ?c (atQuiz\<lparr>selectedOption := Some 2\<rparr>) = Some ?s"
    by (simp add: currentSlide_def jsIndex_def atQuiz_def handHygiene_def)
  have a: "handleQuizSubmit True ?c (atQuiz\<lparr>selectedOption := Some 0\<rparr>) =
     Inr (atQuiz\<lparr>selectedOption := Some 0, isAnswerChecked := True, failedSlides := {''s3''}\<rparr>,
          [OnQuizAttempt ''c1'' ''s3'' ''How long should you rub your hands together with soap?''
             (Some ''5 seconds'') False])"
    by (simp add: player_defs atQuiz_def handHygiene_def)
  have b: "handleQuizSubmit True ?c (atQuiz\<lparr>selectedOption := Some 2\<rparr>) =
     Inr (atQuiz\<lparr>selectedOption := Some 2, isAnswerChecked := True, isCorrect := True\<rparr>,
          [OnQuizAttempt ''c1'' ''s3'' ''How long should you rub your hands together with soap?''
             (Some ''At least 20 seconds'') True])"
    by (simp add: player_defs atQuiz_def handHygiene_def)
  from handleQuizSubmit_emits_one_attempt [OF cur0 qd, of 0]
       handleQuizSubmit_emits_one_attempt [OF cur2 qd, of 2] a b
  show ?thesis by blast
qed


section \<open>Operations outside their precondition\<close>

text \<open>
  C5 as stated fails: the handlers return no error value. On the quiz slide of the seed course, with no
  answer checked, \<^verbatim>\<open>handleNext\<close> advances and awards 50 XP; after a correct check,
  \<^verbatim>\<open>handleRetry\<close> clears the answer state. Neither call is rejected and each changes
  the state.
\<close>

theorem unresolved_quiz_advance_counterexample:
  "currentSlide (handHygiene 0) atQuiz = Some (c_slides (handHygiene 0) ! 2) \<and>
   s_type (c_slides (handHygiene 0) ! 2) = Quiz \<and>
   \<not> isAnswerChecked atQuiz \<and>
   handleNext (handHygiene 0) atQuiz =
     Inr (atQuiz\<lparr>currentSlideIndex := 3, sessionXp := 150\<rparr>, []) \<and>
   atQuiz\<lparr>currentSlideIndex := 3, sessionXp := 150\<rparr> \<noteq> atQuiz \<and>
   handleRetry (atQuiz\<lparr>selectedOption := Some 2, isAnswerChecked := True, isCorrect := True\<rparr>) = atQuiz \<and>
   atQuiz\<lparr>selectedOption := Some 2, isAnswerChecked := True, isCorrect := True\<rparr> \<noteq> atQuiz"
  by (simp add: player_defs atQuiz_def handHygiene_def)

text \<open>
  C5, as the code has it. \<^verbatim>\<open>handleQuizSubmit\<close> with no selection, or on a slide without
  quiz data, returns with the state unchanged and nothing emitted. Every other
  precondition is kept by the page alone, which offers one footer control at a time:
  \<^verbatim>\<open>Check Answer\<close> only on a quiz slide that is unchecked and has a selection,
  \<^verbatim>\<open>Continue\<close> only when the slide is not a quiz or its checked answer is correct,
  \<^verbatim>\<open>Try Again\<close> only on a quiz slide whose checked answer is incorrect. Outside these
  conditions the control does not exist, so no click can happen.
\<close>

theorem usage_errors_are_gated_by_the_page:
  "(selectedOption st = None \<longrightarrow> handleQuizSubmit cb c st = Inr (st, [])) \<and>
   (currentSlide c st = Some s \<and> s_quizData s = None \<longrightarrow> handleQuizSubmit cb c st = Inr (st, [])) \<and>
   (currentSlide c st = Some s \<and> (s_type s \<noteq> Quiz \<or> isAnswerChecked st \<or> selectedOption st = None) \<longrightarrow>
      \<not> enabled c st CheckAnswer \<and> click cb c st CheckAnswer = None) \<and>
   (currentSlide c st = Some s \<and> s_type s = Quiz \<and> \<not> (isAnswerChecked st \<and> isCorrect st) \<longrightarrow>
      \<not> enabled c st Continue \<and> click cb c st Continue = None) \<and>
   (currentSlide c st = Some s \<and> \<not> (s_type s = Quiz \<and> isAnswerChecked st \<and> \<not> isCorrect st) \<longrightarrow>
      \<not> enabled c st TryAgain \<and> click cb c st TryAgain = None)"
  by (auto simp: handleQuizSubmit_def click_def enabled_def render_def footer_def showQuizCheckBtn_def
      split: option.splits)

theorem usage_errors_are_gated_by_the_page_witness:
  "handleQuizSubmit True (handHygiene 0) atQuiz = Inr (atQuiz, []) \<and>
   click True (handHygiene 0) atQuiz CheckAnswer = None \<and>
   click True (handHygiene 0) atQuiz Continue = None \<and>
   click True (handHygiene 0) atQuiz TryAgain = None \<and>
   click True (handHygiene 0) initialPlayer CheckAnswer = None \<and>
   handleQuizSubmit True (handHygiene 0) (initialPlayer\<lparr>selectedOption := Some 0\<rparr>) =
     Inr (initialPlayer\<lparr>selectedOption := Some 0\<rparr>, [])"
proof -
  let ?c = "handHygiene 0"
  have cur: "currentSlide ?c atQuiz = Some (c_slides ?c ! 2)"
    by (simp add: currentSlide_def jsIndex_def atQuiz_def handHygiene_def)
  have quiz: "s_type (c_slides ?c ! 2) = Quiz" by (simp add: handHygiene_def)
  have st: "selectedOption atQuiz = None" "\<not> isAnswerChecked atQuiz" "\<not> isCorrect atQuiz"
    by (simp_all add: atQuiz_def)
  have cur0: "currentSlide ?c initialPlayer = Some (c_slides ?c ! 0)"
    "currentSlide ?c (initialPlayer\<lparr>selectedOption := Some 0\<rparr>) = Some (c_slides ?c ! 0)"
    by (simp_all add: currentSlide_def jsIndex_def initialPlayer_def handHygiene_def)
  have intro: "s_type (c_slides ?c ! 0) \<noteq> Quiz" "s_quizData (c_slides ?c ! 0) = None"
    by (simp_all add: handHygiene_def)
  from usage_errors_are_gated_by_the_page [of atQuiz True ?c "c_slides ?c ! 2"]
       usage_errors_are_gated_by_the_page [of initialPlayer True ?c "c_slides ?c ! 0"]
       usage_errors_are_gated_by_the_page [of "initialPlayer\<lparr>selectedOption := Some 0\<rparr>" True ?c "c_slides ?c ! 0"]
       cur quiz st cur0 intro
  show ?thesis by simp
qed

section \<open>Starting a course without slides\<close>

text \<open>
  C8 as stated fails: \<^verbatim>\<open>handleStartCourse\<close> activates a course with an empty slide list like any other;
  the player then reads slide 0 out of range, computes the progress by a division by 0
  and throws a TypeError on \<^verbatim>\<open>slide.type\<close>.
\<close>

theorem empty_course_start_counterexample:
  "activeCourse (handleStartCourse mikeAtHome emptyCourse) = Some emptyCourse \<and>
   currentSlide emptyCourse initialPlayer = None \<and>
   progress emptyCourse initialPlayer = PosInfinity \<and>
   render emptyCourse initialPlayer = Inl TypeError"
  by (simp add: handleStartCourse_def emptyCourse_def render_def progress_def currentSlide_def
      jsIndex_def initialPlayer_def)

text \<open>
  C8, as the code has it. For every course whose slide list is empty, starting it is
  accepted, and the first evaluation of the player reads an undefined slide, has
  \<^verbatim>\<open>Infinity\<close> as progress and ends in a TypeError, so that no control can be clicked.
  The code has no \<open>InvalidCourse\<close> condition; its guard stands upstream, in the course
  builder, which does not save a course without slides.
\<close>

theorem empty_course_is_not_guarded:
  assumes "c_slides c = []"
  shows "activeCourse (handleStartCourse app c) = Some c \<and>
         currentSlide c initialPlayer = None \<and>
         progress c initialPlayer = PosInfinity \<and>
         render c initialPlayer = Inl TypeError \<and>
         click cb c initialPlayer a = None \<and>
         CourseBuilder_handleSaveCourse title category (c_slides c) = None"
  using assms
  by (simp add: handleStartCourse_def render_def progress_def currentSlide_def jsIndex_def
      initialPlayer_def click_def enabled_def CourseBuilder_handleSaveCourse_def)

theorem empty_course_is_not_guarded_witness:
  "c_slides emptyCourse = [] \<and>
   activeCourse (handleStartCourse mikeAtHome emptyCourse) = Some emptyCourse \<and>
   render emptyCourse initialPlayer = Inl TypeError \<and>
   click True emptyCourse initialPlayer Continue = None \<and>
   CourseBuilder_handleSaveCourse ''Untitled'' ''General'' (c_slides emptyCourse) = None"
proof -
  have e: "c_slides emptyCourse = []" by (simp add: emptyCourse_def)
  from empty_course_is_not_guarded [OF e, of mikeAtHome True Continue "''Untitled''" "''General''"] e
  show ?thesis by simp
qed


section \<open>Course completion and badges\<close>

lemma pushBadge_mem: "b \<in> set (pushBadge cond b' bs) \<longleftrightarrow> b \<in> set bs \<or> (cond \<and> b = b')"
  by (auto simp: pushBadge_def)

lemma rewardUser_completed: "courseId \<in> set (u_completedCourses u) \<Longrightarrow> rewardUser courseId xp p u = u"
  by (simp add: rewardUser_def)

lemma rewardUser_fresh:
  assumes "courseId \<notin> set (u_completedCourses u)"
  shows "u_xp (rewardUser courseId xp p u) = u_xp u + xp"
    and "u_completedCourses (rewardUser courseId xp p u) = u_completedCourses u @ [courseId]"
    and "u_id (rewardUser courseId xp p u) = u_id u"
    and "''b4'' \<in> set (u_badges (rewardUser courseId xp p u)) \<longleftrightarrow> ''b4'' \<in> set (u_badges u) \<or> p"
  using assms by (auto simp: rewardUser_def Let_def pushBadge_mem)

lemma rewardUser_id: "u_id (rewardUser courseId xp p u) = u_id u"
  by (simp add: rewardUser_def Let_def)

lemma users_local:
  "currentUser (auth app) = Some cu \<Longrightarrow>
     users (handleCompleteCourse_local app courseId xp) = updatedUsersOnComplete app cu courseId xp"
  by (simp add: handleCompleteCourse_local_def Let_def)

lemma users_api:
  "currentUser (auth app) = Some cu \<Longrightarrow> userUpdated app cu courseId \<Longrightarrow>
     users (fst (handleCompleteCourse_api app courseId xp)) = updatedUsersOnComplete app cu courseId xp"
  by (simp add: handleCompleteCourse_api_def Let_def)

lemma updated_nth:
  "i < length (users app) \<Longrightarrow>
     updatedUsersOnComplete app cu courseId xp ! i =
       (if u_id (users app ! i) = u_id cu
        then rewardUser courseId xp (isPerfectScore (courses app) courseId xp) (users app ! i)
        else users app ! i)"
  by (simp add: updatedUsersOnComplete_def)

lemma userUpdatedI:
  "i < length (users app) \<Longrightarrow> u_id (users app ! i) = u_id cu \<Longrightarrow>
     courseId \<notin> set (u_completedCourses (users app ! i)) \<Longrightarrow> userUpdated app cu courseId"
  by (auto simp: userUpdated_def list_ex_iff intro!: bexI [of _ "users app ! i"])

lemma completion_needs_slides:
  "handleNext c st = Inr (st', [OnComplete cid xp]) \<Longrightarrow> c_slides c \<noteq> []"
  by (auto simp: handleNext_def currentSlide_def jsIndex_def split: option.splits if_splits)

lemmas app_defs =
  handleCompleteCourse_local_def handleCompleteCourse_api_def updatedUsersOnComplete_def
  userUpdated_def rewardUser_def pushBadge_def isPerfectScore_def maxPossibleXp_def
  mikeAtHome_def educatorAtHome_def INITIAL_USERS_def emptyCourse_def Let_def

lemma mike_facts:
  "currentUser (auth mikeAtHome) = Some (INITIAL_USERS ! 1)"
  "1 < length (users mikeAtHome)"
  "u_id (users mikeAtHome ! 1) = u_id (INITIAL_USERS ! 1)"
  "u_completedCourses (users mikeAtHome ! 1) = []"
  "u_badges (users mikeAtHome ! 1) = [''b1'']"
  "u_xp (users mikeAtHome ! 1) = 850"
  by (simp_all add: mikeAtHome_def INITIAL_USERS_def)

lemma mike_finds_handHygiene:
  "find (\<lambda>c. c_id c = ''c1'') (courses mikeAtHome) = Some (handHygiene 0)"
  "find (\<lambda>c. c_id c = ''c9'') (courses mikeAtHome) = None"
  "length (c_slides (handHygiene 0)) = 4"
  by (simp_all add: mikeAtHome_def handHygiene_def emptyCourse_def)

text \<open>
  C6. When a logged-in user who does not yet hold the badge completes a course of the
  course list that they had not completed before, the perfect-score badge \<open>b4\<close> is granted
  if and only if the earned XP equals \<open>slideCount * 50\<close>, in both versions of the handler.
  The course has at least one slide, as every course that a player session can complete
  has (\<open>completion_needs_slides\<close>).
\<close>

theorem perfect_score_badge_iff:
  assumes cu: "currentUser (auth app) = Some cu"
    and found: "find (\<lambda>c. c_id c = courseId) (courses app) = Some course"
    and slides: "c_slides course \<noteq> []"
    and i: "i < length (users app)"
    and me: "u_id (users app ! i) = u_id cu"
    and fresh: "courseId \<notin> set (u_completedCourses (users app ! i))"
    and nob4: "''b4'' \<notin> set (u_badges (users app ! i))"
  shows "(''b4'' \<in> set (u_badges (users (handleCompleteCourse_local app courseId earnedXp) ! i))
            \<longleftrightarrow> earnedXp = int (length (c_slides course)) * 50) \<and>
         (''b4'' \<in> set (u_badges (users (fst (handleCompleteCourse_api app courseId earnedXp)) ! i))
            \<longleftrightarrow> earnedXp = int (length (c_slides course)) * 50)"
proof -
  have p: "isPerfectScore (courses app) courseId earnedXp \<longleftrightarrow> earnedXp = int (length (c_slides course)) * 50"
    using found slides by (auto simp: isPerfectScore_def maxPossibleXp_def)
  have upd: "userUpdated app cu courseId" using userUpdatedI [OF i me fresh] .
  have nth: "updatedUsersOnComplete app cu courseId earnedXp ! i =
      rewardUser courseId earnedXp (isPerfectScore (courses app) courseId earnedXp) (users app ! i)"
    using updated_nth [OF i] me by simp
  show ?thesis
    by (simp add: users_local [OF cu] users_api [OF cu upd] nth rewardUser_fresh(4) [OF fresh] nob4 p)
qed

theorem perfect_score_badge_iff_witness:
  "''b4'' \<in> set (u_badges (users (handleCompleteCourse_local mikeAtHome ''c1'' 200) ! 1)) \<and>
   ''b4'' \<notin> set (u_badges (users (handleCompleteCourse_local mikeAtHome ''c1'' 150) ! 1)) \<and>
   ''b4'' \<in> set (u_badges (users (fst (handleCompleteCourse_api mikeAtHome ''c1'' 200)) ! 1)) \<and>
   ''b4'' \<notin> set (u_badges (users (fst (handleCompleteCourse_api mikeAtHome ''c1'' 150)) ! 1))"
proof -
  have slides: "c_slides (handHygiene 0) \<noteq> []" by (simp add: handHygiene_def)
  have fresh: "''c1'' \<notin> set (u_completedCourses (users mikeAtHome ! 1))"
    and nob4: "''b4'' \<notin> set (u_badges (users mikeAtHome ! 1))"
    by (simp_all add: mikeAtHome_def INITIAL_USERS_def)
  note iff = perfect_score_badge_iff [OF mike_facts(1) mike_finds_handHygiene(1) slides
      mike_facts(2) mike_facts(3) fresh nob4]
  from iff [of 200] iff [of 150] show ?thesis
    by (simp add: mike_finds_handHygiene(3))
qed

subsection \<open>Completing a course twice\<close>

lemma all_completed_after:
  assumes "u' \<in> set (updatedUsersOnComplete app cu courseId xp)" and "u_id u' = u_id cu"
  shows "courseId \<in> set (u_completedCourses u')"
proof -
  from assms(1) obtain u where u: "u \<in> set (users app)"
    and u': "u' = (if u_id u = u_id cu
                   then rewardUser courseId xp (isPerfectScore (courses app) courseId xp) u else u)"
    by (auto simp: updatedUsersOnComplete_def)
  from u' assms(2) have same: "u_id u = u_id cu"
    by (auto simp: rewardUser_id split: if_splits)
  show ?thesis
  proof (cases "courseId \<in> set (u_completedCourses u)")
    case True
    with u' same show ?thesis by (simp add: rewardUser_completed)
  next
    case False
    with u' same show ?thesis by (simp add: rewardUser_fresh(2))
  qed
qed

lemma unchanged_when_all_completed:
  assumes "\<And>u. u \<in> set (users app) \<Longrightarrow> u_id u = u_id cu \<Longrightarrow> courseId \<in> set (u_completedCourses u)"
  shows "updatedUsersOnComplete app cu courseId xp = users app"
  unfolding updatedUsersOnComplete_def
  by (rule map_idI) (simp add: assms rewardUser_completed)

lemma find_id: "find (\<lambda>u. u_id u = k) us = Some v \<Longrightarrow> u_id v = k"
  by (auto simp: find_Some_iff)

lemma local_twice:
  "users (handleCompleteCourse_local (handleCompleteCourse_local app courseId xp) courseId xp')
     = users (handleCompleteCourse_local app courseId xp)"
proof (cases "currentUser (auth app)")
  case None
  then show ?thesis by (simp add: handleCompleteCourse_local_def)
next
  case (Some cu)
  let ?U = "updatedUsersOnComplete app cu courseId xp"
  let ?app1 = "handleCompleteCourse_local app courseId xp"
  have u1: "users ?app1 = ?U" using users_local [OF Some] .
  have a1: "currentUser (auth ?app1) = find (\<lambda>u. u_id u = u_id cu) ?U"
    using Some by (simp add: handleCompleteCourse_local_def Let_def)
  show ?thesis
  proof (cases "find (\<lambda>u. u_id u = u_id cu) ?U")
    case None
    with a1 show ?thesis by (simp add: handleCompleteCourse_local_def [of ?app1])
  next
    case (Some cu')
    with a1 have c1: "currentUser (auth ?app1) = Some cu'" by simp
    from Some have same: "u_id cu' = u_id cu" by (rule find_id)
    have "updatedUsersOnComplete ?app1 cu' courseId xp' = users ?app1"
    proof (rule unchanged_when_all_completed)
      fix u assume "u \<in> set (users ?app1)" and "u_id u = u_id cu'"
      then show "courseId \<in> set (u_completedCourses u)"
        using all_completed_after [of u app cu courseId xp] u1 same by simp
    qed
    then show ?thesis using users_local [OF c1, of courseId xp'] by simp
  qed
qed

lemma api_twice:
  "handleCompleteCourse_api (fst (handleCompleteCourse_api app courseId xp)) courseId xp'
     = (fst (handleCompleteCourse_api app courseId xp), [])"
proof (cases "currentUser (auth app)")
  case None
  then show ?thesis by (simp add: handleCompleteCourse_api_def)
next
  case (Some cu)
  show ?thesis
  proof (cases "userUpdated app cu courseId")
    case False
    with Some show ?thesis by (simp add: handleCompleteCourse_api_def Let_def)
  next
    case True
    let ?U = "updatedUsersOnComplete app cu courseId xp"
    let ?app1 = "fst (handleCompleteCourse_api app courseId xp)"
    have u1: "users ?app1 = ?U" using users_api [OF Some True] .
    have a1: "currentUser (auth ?app1) = find (\<lambda>u. u_id u = u_id cu) ?U"
      using Some True by (simp add: handleCompleteCourse_api_def Let_def)
    show ?thesis
    proof (cases "find (\<lambda>u. u_id u = u_id cu) ?U")
      case None
      with a1 show ?thesis by (simp add: handleCompleteCourse_api_def [of ?app1])
    next
      case (Some cu')
      with a1 have c1: "currentUser (auth ?app1) = Some cu'" by simp
      from Some have same: "u_id cu' = u_id cu" by (rule find_id)
      have "\<not> userUpdated ?app1 cu' courseId"
        using all_completed_after [of _ app cu courseId xp] u1 same
        by (auto simp: userUpdated_def list_ex_iff)
      with c1 show ?thesis by (simp add: handleCompleteCourse_api_def [of ?app1] Let_def)
    qed
  qed
qed

text \<open>
  C7. A user entry that already lists the course id as completed is left exactly as it is
  by the completion handler (XP, badges and completed courses included), in both
  versions; and invoking the handler a second time for the same course id, whatever the
  reported XP, changes no user (the API version then changes nothing and sends nothing).
\<close>

theorem completion_is_idempotent:
  assumes i: "i < length (users app)"
    and compl: "courseId \<in> set (u_completedCourses (users app ! i))"
  shows "users (handleCompleteCourse_local app courseId earnedXp) ! i = users app ! i \<and>
         users (fst (handleCompleteCourse_api app courseId earnedXp)) ! i = users app ! i \<and>
         users (handleCompleteCourse_local (handleCompleteCourse_local app courseId earnedXp) courseId earnedXp')
           = users (handleCompleteCourse_local app courseId earnedXp) \<and>
         handleCompleteCourse_api (fst (handleCompleteCourse_api app courseId earnedXp)) courseId earnedXp'
           = (fst (handleCompleteCourse_api app courseId earnedXp), [])"
proof -
  have nth: "updatedUsersOnComplete app cu courseId earnedXp ! i = users app ! i" for cu
    using updated_nth [OF i] compl by (simp add: rewardUser_completed)
  have l: "users (handleCompleteCourse_local app courseId earnedXp) ! i = users app ! i"
    by (cases "currentUser (auth app)") (simp_all add: handleCompleteCourse_local_def Let_def nth)
  have a: "users (fst (handleCompleteCourse_api app courseId earnedXp)) ! i = users app ! i"
    by (cases "currentUser (auth app)") (simp_all add: handleCompleteCourse_api_def Let_def nth)
  from l a local_twice api_twice show ?thesis by simp
qed

theorem completion_is_idempotent_witness:
  "users (handleCompleteCourse_local (handleCompleteCourse_local mikeAtHome ''c1'' 200) ''c1'' 200) ! 1
     = users (handleCompleteCourse_local mikeAtHome ''c1'' 200) ! 1 \<and>
   u_xp (users (handleCompleteCourse_local (handleCompleteCourse_local mikeAtHome ''c1'' 200) ''c1'' 200) ! 1) = 1050 \<and>
   u_badges (users (handleCompleteCourse_local (handleCompleteCourse_local mikeAtHome ''c1'' 200) ''c1'' 200) ! 1)
     = [''b1'', ''b2'', ''b4''] \<and>
   u_completedCourses (users (handleCompleteCourse_local (handleCompleteCourse_local mikeAtHome ''c1'' 200) ''c1'' 200) ! 1)
     = [''c1'']"
proof -
  let ?app1 = "handleCompleteCourse_local mikeAtHome ''c1'' 200"
  have u1: "users ?app1 ! 1 =
      (INITIAL_USERS ! 1)\<lparr>u_xp := 1050, u_badges := [''b1'', ''b2'', ''b4''], u_completedCourses := [''c1'']\<rparr>"
    by (simp add: app_defs handHygiene_def)
  have i: "1 < length (users ?app1)" by (simp add: app_defs)
  have compl: "''c1'' \<in> set (u_completedCourses (users ?app1 ! 1))" using u1 by simp
  from completion_is_idempotent [OF i compl, of 200 200] u1 show ?thesis by simp
qed

subsection \<open>A course id that is not in the course list\<close>

text \<open>
  C10. When the completed course id is not in the course list, the maximum possible XP
  counts as 0 and the score is never perfect: the logged-in user, if they had not
  completed that id, still receives the earned XP and has the id appended to their
  completed courses, and holds the badge \<open>b4\<close> afterwards only if they held it before.
\<close>

theorem unknown_course_completion:
  assumes cu: "currentUser (auth app) = Some cu"
    and missing: "find (\<lambda>c. c_id c = courseId) (courses app) = None"
    and i: "i < length (users app)"
    and me: "u_id (users app ! i) = u_id cu"
    and fresh: "courseId \<notin> set (u_completedCourses (users app ! i))"
  shows "maxPossibleXp (courses app) courseId = 0 \<and>
         \<not> isPerfectScore (courses app) courseId earnedXp \<and>
         u_xp (users (handleCompleteCourse_local app courseId earnedXp) ! i) = u_xp (users app ! i) + earnedXp \<and>
         u_completedCourses (users (handleCompleteCourse_local app courseId earnedXp) ! i)
           = u_completedCourses (users app ! i) @ [courseId] \<and>
         (''b4'' \<in> set (u_badges (users (handleCompleteCourse_local app courseId earnedXp) ! i))
            \<longleftrightarrow> ''b4'' \<in> set (u_badges (users app ! i))) \<and>
         u_xp (users (fst (handleCompleteCourse_api app courseId earnedXp)) ! i) = u_xp (users app ! i) + earnedXp \<and>
         u_completedCourses (users (fst (handleCompleteCourse_api app courseId earnedXp)) ! i)
           = u_completedCourses (users app ! i) @ [courseId] \<and>
         (''b4'' \<in> set (u_badges (users (fst (handleCompleteCourse_api app courseId earnedXp)) ! i))
            \<longleftrightarrow> ''b4'' \<in> set (u_badges (users app ! i)))"
proof -
  have m: "maxPossibleXp (courses app) courseId = 0"
    using missing by (simp add: maxPossibleXp_def)
  then have p: "\<not> isPerfectScore (courses app) courseId earnedXp"
    by (simp add: isPerfectScore_def)
  have upd: "userUpdated app cu courseId" using userUpdatedI [OF i me fresh] .
  have nth: "updatedUsersOnComplete app cu courseId earnedXp ! i =
      rewardUser courseId earnedXp (isPerfectScore (courses app) courseId earnedXp) (users app ! i)"
    using updated_nth [OF i] me by simp
  show ?thesis
    by (simp add: m p users_local [OF cu] users_api [OF cu upd] nth rewardUser_fresh [OF fresh])
qed

theorem unknown_course_completion_witness:
  "u_xp (users (handleCompleteCourse_local mikeAtHome ''c9'' 200) ! 1) = 1050 \<and>
   u_completedCourses (users (handleCompleteCourse_local mikeAtHome ''c9'' 200) ! 1) = [''c9''] \<and>
   ''b4'' \<notin> set (u_badges (users (handleCompleteCourse_local mikeAtHome ''c9'' 200) ! 1)) \<and>
   u_xp (users (fst (handleCompleteCourse_api mikeAtHome ''c9'' 0)) ! 1) = 850 \<and>
   u_completedCourses (users (fst (handleCompleteCourse_api mikeAtHome ''c9'' 0)) ! 1) = [''c9''] \<and>
   ''b4'' \<notin> set (u_badges (users (fst (handleCompleteCourse_api mikeAtHome ''c9'' 0)) ! 1))"
proof -
  have fresh: "''c9'' \<notin> set (u_completedCourses (users mikeAtHome ! 1))"
    by (simp add: mikeAtHome_def INITIAL_USERS_def)
  note u = unknown_course_completion [OF mike_facts(1) mike_finds_handHygiene(2)
      mike_facts(2) mike_facts(3) fresh]
  from u [of 200] u [of 0] show ?thesis
    by (simp add: mikeAtHome_def INITIAL_USERS_def)
qed

section \<open>Importing users\<close>

text \<open>
  The local-storage version of the import copies name, PIN and role only, and so keeps
  the XP, badges and completed courses of every existing user; a completion never lowers
  XP when the earned XP is not negative.
\<close>

lemma findIndex_Some:
  "findIndex P xs = Some i \<Longrightarrow> i < length xs \<and> P (xs ! i)"
  by (induction xs arbitrary: i) (auto split: if_splits)

lemma importOne_local_keeps:
  assumes "i < length us"
  shows "i < length (importOne_local us imp) \<and>
         u_xp (importOne_local us imp ! i) = u_xp (us ! i) \<and>
         u_badges (importOne_local us imp ! i) = u_badges (us ! i) \<and>
         u_completedCourses (importOne_local us imp ! i) = u_completedCourses (us ! i)"
  using assms
  by (auto simp: importOne_local_def nth_list_update nth_append split: option.splits
      dest: findIndex_Some)

lemma import_local_keeps_progress:
  "i < length us \<Longrightarrow>
     i < length (foldl importOne_local us imps) \<and>
     u_xp (foldl importOne_local us imps ! i) = u_xp (us ! i) \<and>
     u_badges (foldl importOne_local us imps ! i) = u_badges (us ! i) \<and>
     u_completedCourses (foldl importOne_local us imps ! i) = u_completedCourses (us ! i)"
proof (induction imps arbitrary: us)
  case Nil
  then show ?case by simp
next
  case (Cons imp imps)
  from importOne_local_keeps [OF Cons.prems, of imp] Cons.IH [of "importOne_local us imp"]
  show ?case by simp
qed

lemma completion_xp_monotone:
  assumes "0 \<le> earnedXp" and "i < length (users app)"
  shows "u_xp (users app ! i) \<le> u_xp (users (handleCompleteCourse_local app courseId earnedXp) ! i) \<and>
         u_xp (users app ! i) \<le> u_xp (users (fst (handleCompleteCourse_api app courseId earnedXp)) ! i)"
proof -
  have r: "u_xp u \<le> u_xp (rewardUser courseId earnedXp p u)" for u p
    using assms(1) by (simp add: rewardUser_def Let_def)
  have nth: "u_xp (users app ! i) \<le> u_xp (updatedUsersOnComplete app cu courseId earnedXp ! i)" for cu
    using updated_nth [OF assms(2)] r by simp
  show ?thesis
    by (cases "currentUser (auth app)")
       (simp_all add: handleCompleteCourse_local_def handleCompleteCourse_api_def Let_def nth)
qed

text \<open>
  C9 fails on the API version of the import. With the seed users loaded, importing the CSV
  row \<^verbatim>\<open>12345,"Sarah Jenkins",1234,Nurse\<close> replaces the stored user \<open>12345\<close> by the parsed
  record: the user's XP drops from 1250 to 0 and the badges are lost. The local-storage
  version keeps the 1250 XP on the same input.
\<close>

theorem csv_import_resets_xp:
  "u_id (users educatorAtHome ! 0) = ''12345'' \<and>
   u_xp (users educatorAtHome ! 0) = 1250 \<and>
   u_badges (users educatorAtHome ! 0) = [''b1'', ''b2''] \<and>
   users (fst (handleImportUsers_api educatorAtHome
                 [parsedUser enc ''12345'' ''Sarah Jenkins'' ''1234'' ''Nurse''])) ! 0
     = parsedUser enc ''12345'' ''Sarah Jenkins'' ''1234'' ''Nurse'' \<and>
   u_xp (users (fst (handleImportUsers_api educatorAtHome
                 [parsedUser enc ''12345'' ''Sarah Jenkins'' ''1234'' ''Nurse''])) ! 0) = 0 \<and>
   u_badges (users (fst (handleImportUsers_api educatorAtHome
                 [parsedUser enc ''12345'' ''Sarah Jenkins'' ''1234'' ''Nurse''])) ! 0) = [] \<and>
   u_xp (users (handleImportUsers_local educatorAtHome
                 [parsedUser enc ''12345'' ''Sarah Jenkins'' ''1234'' ''Nurse'']) ! 0) = 1250"
  by (simp add: handleImportUsers_api_def handleImportUsers_local_def importOne_api_def
      importOne_local_def spreadUser_def parsedUser_def educatorAtHome_def INITIAL_USERS_def)


end
